theory Spec2Isabelle
  imports Main
begin

section \<open>The retrieval bridge of \<^verbatim>\<open>src/lib/rag-server.ts\<close>\<close>

text \<open>
  The file exports two functions, \<^verbatim>\<open>queryFAISSVectorStore\<close> and
  \<^verbatim>\<open>checkRAGSystemStatus\<close>. Each spawns the Python worker, appends what arrives on
  its standard output to a buffer, and settles a promise from the handler of the first
  \<^verbatim>\<open>close\<close> or \<^verbatim>\<open>error\<close> event. The embedding follows that shape: the worker is
  the list of events the child process emits, the handlers are functions on the buffer,
  and the promise is a state that only its first \<^verbatim>\<open>resolve\<close> changes. The JavaScript
  built-ins the handlers call (\<^verbatim>\<open>indexOf\<close>, \<^verbatim>\<open>substring\<close>, \<^verbatim>\<open>JSON.parse\<close>, property
  access, truthiness, template literals) are modelled next, each exception as a value.
\<close>

subsection \<open>JavaScript strings and values\<close>

text \<open>
  A JavaScript string is a sequence of UTF-16 code units; a code unit is a number.
  \<open>js\<close> turns an ASCII literal into such a string.
\<close>

type_synonym jstring = "nat list"

definition cu :: "char \<Rightarrow> nat" where
  "cu c = of_char c"

definition js :: "string \<Rightarrow> jstring" where
  "js s = map cu s"

text \<open>
  The values \<^verbatim>\<open>JSON.parse\<close> returns, and \<^verbatim>\<open>undefined\<close>, which reading an absent
  property gives. A number \<open>JNum m e\<close> stands for the decimal \<open>m * 10 ^ e\<close> of its
  literal; the engine rounds it to a double. An object keeps its members as written, in
  order, duplicates included.
\<close>

datatype jsval =
    JUndefined
  | JNull
  | JBool bool
  | JNum int int
  | JStr jstring
  | JArr "jsval list"
  | JObj "(jstring \<times> jsval) list"

text \<open>The exceptions that the code inside the \<^verbatim>\<open>try\<close> blocks can raise.\<close>

datatype js_exception = SyntaxError jstring | TypeError

subsection \<open>\<^verbatim>\<open>JSON.parse\<close>\<close>

text \<open>
  The JSON grammar of ECMA-404, which \<^verbatim>\<open>JSON.parse\<close> implements: a lexer for
  punctuation, strings, numbers and the three literal names, then a stack automaton over
  the tokens. White space is tab, line feed, carriage return and space.
\<close>

definition is_ws :: "nat \<Rightarrow> bool" where
  "is_ws c = (c = 9 \<or> c = 10 \<or> c = 13 \<or> c = 32)"

definition is_digit :: "nat \<Rightarrow> bool" where
  "is_digit c = (48 \<le> c \<and> c \<le> 57)"

definition hex_value :: "nat \<Rightarrow> nat option" where
  "hex_value c =
     (if 48 \<le> c \<and> c \<le> 57 then Some (c - 48)
      else if 65 \<le> c \<and> c \<le> 70 then Some (c - 55)
      else if 97 \<le> c \<and> c \<le> 102 then Some (c - 87)
      else None)"

definition hex4 :: "nat \<Rightarrow> nat \<Rightarrow> nat \<Rightarrow> nat \<Rightarrow> nat option" where
  "hex4 a b c d =
     (case (hex_value a, hex_value b, hex_value c, hex_value d) of
        (Some h3, Some h2, Some h1, Some h0) \<Rightarrow> Some (((h3 * 16 + h2) * 16 + h1) * 16 + h0)
      | _ \<Rightarrow> None)"

text \<open>The character after a backslash, other than \<^verbatim>\<open>u\<close>.\<close>

definition unescape :: "nat \<Rightarrow> nat option" where
  "unescape e =
     (if e = 34 then Some 34
      else if e = 92 then Some 92
      else if e = 47 then Some 47
      else if e = 98 then Some 8
      else if e = 102 then Some 12
      else if e = 110 then Some 10
      else if e = 114 then Some 13
      else if e = 116 then Some 9
      else None)"

definition prepend :: "nat \<Rightarrow> (jstring \<times> jstring) option \<Rightarrow> (jstring \<times> jstring) option" where
  "prepend c r = (case r of None \<Rightarrow> None | Some (s, rest) \<Rightarrow> Some (c # s, rest))"

text \<open>
  \<open>lex_string\<close> reads a string body, the opening quote already consumed: it returns
  the string's code units and the input after the closing quote. A control character, a
  bad escape and the end of input are errors.
\<close>

fun lex_string :: "jstring \<Rightarrow> (jstring \<times> jstring) option" where
  "lex_string [] = None"
| "lex_string (c # cs) =
     (if c = 34 then Some ([], cs)
      else if c = 92 then
        (case cs of
           [] \<Rightarrow> None
         | e # es \<Rightarrow>
             if e = 117 then
               (case es of
                  h3 # h2 # h1 # h0 # rest \<Rightarrow>
                    (case hex4 h3 h2 h1 h0 of
                       None \<Rightarrow> None
                     | Some u \<Rightarrow> prepend u (lex_string rest))
                | _ \<Rightarrow> None)
             else
               (case unescape e of
                  None \<Rightarrow> None
                | Some u \<Rightarrow> prepend u (lex_string es)))
      else if c < 32 then None
      else prepend c (lex_string cs))"

definition digits_value :: "jstring \<Rightarrow> int" where
  "digits_value ds = foldl (\<lambda>n d. 10 * n + (int d - 48)) 0 ds"

definition lex_int :: "jstring \<Rightarrow> (jstring \<times> jstring) option" where
  "lex_int s =
     (case s of
        [] \<Rightarrow> None
      | c # cs \<Rightarrow>
          if c = 48 then Some ([c], cs)
          else if is_digit c then Some (takeWhile is_digit s, dropWhile is_digit s)
          else None)"

definition lex_frac :: "jstring \<Rightarrow> (jstring \<times> jstring) option" where
  "lex_frac s =
     (case s of
        [] \<Rightarrow> Some ([], s)
      | c # cs \<Rightarrow>
          if c = 46 then
            (if takeWhile is_digit cs = [] then None
             else Some (takeWhile is_digit cs, dropWhile is_digit cs))
          else Some ([], s))"

definition lex_exp_digits :: "bool \<Rightarrow> jstring \<Rightarrow> (int \<times> jstring) option" where
  "lex_exp_digits neg s =
     (if takeWhile is_digit s = [] then None
      else Some ((if neg then - digits_value (takeWhile is_digit s)
                  else digits_value (takeWhile is_digit s)),
                 dropWhile is_digit s))"

definition lex_exp :: "jstring \<Rightarrow> (int \<times> jstring) option" where
  "lex_exp s =
     (case s of
        [] \<Rightarrow> Some (0, s)
      | c # cs \<Rightarrow>
          if c = 101 \<or> c = 69 then
            (case cs of
               [] \<Rightarrow> None
             | d # ds \<Rightarrow>
                 if d = 45 then lex_exp_digits True ds
                 else if d = 43 then lex_exp_digits False ds
                 else lex_exp_digits False cs)
          else Some (0, s))"

text \<open>
  A number: an optional minus, an integer part with no leading zero, an optional
  fraction, an optional exponent. Its value is kept exactly, as mantissa and decimal
  exponent.
\<close>

definition lex_unsigned :: "bool \<Rightarrow> jstring \<Rightarrow> (jsval \<times> jstring) option" where
  "lex_unsigned neg s =
     (case lex_int s of
        None \<Rightarrow> None
      | Some (ip, s2) \<Rightarrow>
          (case lex_frac s2 of
             None \<Rightarrow> None
           | Some (fp, s3) \<Rightarrow>
               (case lex_exp s3 of
                  None \<Rightarrow> None
                | Some (ex, s4) \<Rightarrow>
                    Some (JNum (if neg then - digits_value (ip @ fp) else digits_value (ip @ fp))
                               (ex - int (length fp)), s4))))"

definition lex_number :: "jstring \<Rightarrow> (jsval \<times> jstring) option" where
  "lex_number s =
     (case s of
        [] \<Rightarrow> None
      | c # cs \<Rightarrow> if c = 45 then lex_unsigned True cs else lex_unsigned False s)"

definition lex_literal :: "jstring \<Rightarrow> (jsval \<times> jstring) option" where
  "lex_literal s =
     (if take 4 s = js ''true'' then Some (JBool True, drop 4 s)
      else if take 5 s = js ''false'' then Some (JBool False, drop 5 s)
      else if take 4 s = js ''null'' then Some (JNull, drop 4 s)
      else None)"

datatype token = LBrace | RBrace | LBrack | RBrack | Colon | Comma | Scalar jsval

definition punct :: "nat \<Rightarrow> token option" where
  "punct c =
     (if c = 123 then Some LBrace
      else if c = 125 then Some RBrace
      else if c = 91 then Some LBrack
      else if c = 93 then Some RBrack
      else if c = 58 then Some Colon
      else if c = 44 then Some Comma
      else None)"

definition emit :: "token \<Rightarrow> token list option \<Rightarrow> token list option" where
  "emit t r = (case r of None \<Rightarrow> None | Some ts \<Rightarrow> Some (t # ts))"

lemma prepend_Some:
  "prepend c r = Some (s, rest) \<Longrightarrow> \<exists>s'. r = Some (s', rest)"
  by (auto simp: prepend_def split: option.splits)

lemma lex_string_shorter:
  "lex_string cs = Some (s, rest) \<Longrightarrow> length rest < length cs"
proof (induction cs arbitrary: s rule: lex_string.induct)
  case 1
  then show ?case by simp
next
  case (2 c cs)
  show ?case
  proof (cases "c = 34")
    case True
    with "2.prems" show ?thesis by simp
  next
    case quote: False
    show ?thesis
    proof (cases "c = 92")
      case False
      with quote "2.prems" obtain s' where "lex_string cs = Some (s', rest)"
        by (auto split: if_splits dest: prepend_Some)
      with "2.IH"(3) [OF quote False] quote False "2.prems" show ?thesis
        by (fastforce split: if_splits)
    next
      case True
      with quote "2.prems" obtain e es where cs: "cs = e # es"
        by (cases cs) auto
      show ?thesis
      proof (cases "e = 117")
        case False
        with quote True cs "2.prems" obtain u s' where
          "unescape e = Some u" "lex_string es = Some (s', rest)"
          by (auto split: option.splits dest: prepend_Some)
        with "2.IH"(2) [OF quote True cs False] show ?thesis
          using cs by fastforce
      next
        case u: True
        with quote True cs "2.prems" obtain h3 h2 h1 h0 r v s' where
          es: "es = h3 # h2 # h1 # h0 # r" and "hex4 h3 h2 h1 h0 = Some v"
          and "lex_string r = Some (s', rest)"
          by (auto split: list.splits option.splits dest: prepend_Some)
        with "2.IH"(1) [OF quote True cs u] show ?thesis
          using cs by fastforce
      qed
    qed
  qed
qed

lemma dropWhile_shorter: "length (dropWhile P xs) \<le> length xs"
  by (induction xs) auto

lemma lex_int_shorter: "lex_int s = Some (ip, r) \<Longrightarrow> length r < length s"
  using dropWhile_shorter [of is_digit "tl s"]
  by (cases s) (auto simp: lex_int_def split: if_splits)

lemma lex_frac_shorter: "lex_frac s = Some (fp, r) \<Longrightarrow> length r \<le> length s"
  using dropWhile_shorter [of is_digit "tl s"]
  by (cases s) (auto simp: lex_frac_def split: if_splits)

lemma lex_exp_digits_shorter: "lex_exp_digits neg s = Some (ex, r) \<Longrightarrow> length r \<le> length s"
  using dropWhile_shorter [of is_digit s]
  by (auto simp: lex_exp_digits_def split: if_splits)

lemma lex_exp_shorter: "lex_exp s = Some (ex, r) \<Longrightarrow> length r \<le> length s"
  by (cases s; cases "tl s")
     (auto simp: lex_exp_def split: if_splits dest!: lex_exp_digits_shorter)

lemma lex_unsigned_shorter: "lex_unsigned neg s = Some (v, r) \<Longrightarrow> length r < length s"
  unfolding lex_unsigned_def
  by (auto split: option.splits
           dest!: lex_int_shorter lex_frac_shorter lex_exp_shorter)

lemma lex_number_shorter: "lex_number s = Some (v, r) \<Longrightarrow> length r < length s"
  by (cases s) (auto simp: lex_number_def split: if_splits dest!: lex_unsigned_shorter)

lemma lex_literal_shorter: "lex_literal s = Some (v, r) \<Longrightarrow> length r < length s"
  by (cases s) (auto simp: lex_literal_def js_def split: if_splits)

function lex :: "jstring \<Rightarrow> token list option" where
  "lex [] = Some []"
| "lex (c # cs) =
     (if is_ws c then lex cs
      else
        (case punct c of
           Some t \<Rightarrow> emit t (lex cs)
         | None \<Rightarrow>
             if c = 34 then
               (case lex_string cs of
                  None \<Rightarrow> None
                | Some (s, rest) \<Rightarrow> emit (Scalar (JStr s)) (lex rest))
             else if c = 45 \<or> is_digit c then
               (case lex_number (c # cs) of
                  None \<Rightarrow> None
                | Some (n, rest) \<Rightarrow> emit (Scalar n) (lex rest))
             else
               (case lex_literal (c # cs) of
                  None \<Rightarrow> None
                | Some (v, rest) \<Rightarrow> emit (Scalar v) (lex rest))))"
  by pat_completeness auto
termination
proof (relation "measure length")
  show "wf (measure length)" by simp
qed (auto dest!: lex_string_shorter lex_number_shorter lex_literal_shorter)

text \<open>
  The automaton. A frame of the stack is an enclosing array with its finished elements,
  or an enclosing object with its finished members and the key whose value is being
  read. The mode says what may come next.
\<close>

datatype frame = FArr "jsval list" | FObj "(jstring \<times> jsval) list" jstring

datatype mode =
    WantValue
  | WantValueOrEnd
  | WantKeyOrEnd
  | WantKey "(jstring \<times> jsval) list"
  | WantColon "(jstring \<times> jsval) list" jstring
  | Got jsval

fun start_value :: "token \<Rightarrow> frame list \<Rightarrow> (mode \<times> frame list) option" where
  "start_value (Scalar v) stk = Some (Got v, stk)"
| "start_value LBrack stk = Some (WantValueOrEnd, FArr [] # stk)"
| "start_value LBrace stk = Some (WantKeyOrEnd, stk)"
| "start_value _ stk = None"

fun step :: "token \<Rightarrow> mode \<times> frame list \<Rightarrow> (mode \<times> frame list) option" where
  "step tok (WantValue, stk) = start_value tok stk"
| "step RBrack (WantValueOrEnd, FArr xs # stk) = Some (Got (JArr xs), stk)"
| "step tok (WantValueOrEnd, stk) = start_value tok stk"
| "step RBrace (WantKeyOrEnd, stk) = Some (Got (JObj []), stk)"
| "step (Scalar (JStr k)) (WantKeyOrEnd, stk) = Some (WantColon [] k, stk)"
| "step (Scalar (JStr k)) (WantKey ms, stk) = Some (WantColon ms k, stk)"
| "step Colon (WantColon ms k, stk) = Some (WantValue, FObj ms k # stk)"
| "step Comma (Got v, FArr xs # stk) = Some (WantValue, FArr (xs @ [v]) # stk)"
| "step RBrack (Got v, FArr xs # stk) = Some (Got (JArr (xs @ [v])), stk)"
| "step Comma (Got v, FObj ms k # stk) = Some (WantKey (ms @ [(k, v)]), stk)"
| "step RBrace (Got v, FObj ms k # stk) = Some (Got (JObj (ms @ [(k, v)])), stk)"
| "step _ _ = None"

fun run_tokens :: "token list \<Rightarrow> mode \<times> frame list \<Rightarrow> (mode \<times> frame list) option" where
  "run_tokens [] st = Some st"
| "run_tokens (t # ts) st = (case step t st of None \<Rightarrow> None | Some st' \<Rightarrow> run_tokens ts st')"

text \<open>
  \<^verbatim>\<open>JSON.parse(text)\<close>: the value, or the \<^verbatim>\<open>SyntaxError\<close> it throws. The text must be
  exactly one value, white space around it allowed.
\<close>

definition JSON_parse :: "jstring \<Rightarrow> js_exception + jsval" where
  "JSON_parse text =
     (case lex text of
        None \<Rightarrow> Inl (SyntaxError text)
      | Some ts \<Rightarrow>
          (case run_tokens ts (WantValue, []) of
             Some (Got v, []) \<Rightarrow> Inr v
           | _ \<Rightarrow> Inl (SyntaxError text)))"

subsection \<open>Truthiness, property access, conversion to text\<close>

text \<open>
  A number is falsy when its double is zero: the literal is zero, or it is at most
  \<open>2 ^ -1075\<close> in magnitude, half the least positive double, and rounds to zero
  (V8 rounds correctly).
\<close>

definition rounds_to_zero :: "int \<Rightarrow> int \<Rightarrow> bool" where
  "rounds_to_zero m e = (m = 0 \<or> (e < 0 \<and> \<bar>m\<bar> * 2 ^ 1075 \<le> 10 ^ nat (- e)))"

fun truthy :: "jsval \<Rightarrow> bool" where
  "truthy JUndefined = False"
| "truthy JNull = False"
| "truthy (JBool b) = b"
| "truthy (JNum m e) = (\<not> rounds_to_zero m e)"
| "truthy (JStr s) = (s \<noteq> [])"
| "truthy (JArr xs) = True"
| "truthy (JObj ms) = True"

text \<open>The own property \<open>k\<close> of a parsed object: of duplicate members the last wins.\<close>

definition own_property :: "(jstring \<times> jsval) list \<Rightarrow> jstring \<Rightarrow> jsval option" where
  "own_property ms k = map_of (rev ms) k"

definition field :: "(jstring \<times> jsval) list \<Rightarrow> jstring \<Rightarrow> jsval" where
  "field ms k = (case own_property ms k of None \<Rightarrow> JUndefined | Some v \<Rightarrow> v)"

text \<open>
  \<^verbatim>\<open>value.k\<close>, for the names the source reads (\<^verbatim>\<open>error\<close>, \<^verbatim>\<open>chunks\<close>,
  \<^verbatim>\<open>chunk_count\<close>, \<^verbatim>\<open>ready\<close>, \<^verbatim>\<open>doc_count\<close>): no prototype has a property of these
  names, so an object gives its own property or \<^verbatim>\<open>undefined\<close>, an array, string,
  number or boolean gives \<^verbatim>\<open>undefined\<close>, and \<^verbatim>\<open>null\<close> throws a \<^verbatim>\<open>TypeError\<close>.
\<close>

fun get_prop :: "jsval \<Rightarrow> jstring \<Rightarrow> js_exception + jsval" where
  "get_prop JUndefined k = Inl TypeError"
| "get_prop JNull k = Inl TypeError"
| "get_prop (JObj ms) k = Inr (field ms k)"
| "get_prop v k = Inr JUndefined"

text \<open>
  The conversion a template literal applies to \<^verbatim>\<open>${value}\<close>. \<open>nt\<close> is the engine's
  \<^verbatim>\<open>Number.prototype.toString\<close>. An array is its elements joined by commas,
  \<^verbatim>\<open>null\<close> elements empty. A parsed object is \<^verbatim>\<open>[object Object]\<close>, unless it has a
  member named \<^verbatim>\<open>toString\<close>: that member is not callable, \<^verbatim>\<open>valueOf\<close> gives no
  primitive, and the conversion throws a \<^verbatim>\<open>TypeError\<close>.
\<close>

fun ToString :: "(int \<Rightarrow> int \<Rightarrow> jstring) \<Rightarrow> jsval \<Rightarrow> js_exception + jstring"
  and join_elements :: "(int \<Rightarrow> int \<Rightarrow> jstring) \<Rightarrow> jsval list \<Rightarrow> js_exception + jstring" where
  "ToString nt JUndefined = Inr (js ''undefined'')"
| "ToString nt JNull = Inr (js ''null'')"
| "ToString nt (JBool b) = Inr (if b then js ''true'' else js ''false'')"
| "ToString nt (JNum m e) = Inr (nt m e)"
| "ToString nt (JStr s) = Inr s"
| "ToString nt (JArr xs) = join_elements nt xs"
| "ToString nt (JObj ms) =
     (if own_property ms (js ''toString'') = None then Inr (js ''[object Object]'')
      else Inl TypeError)"
| "join_elements nt [] = Inr []"
| "join_elements nt (x # xs) =
     (case (if x = JNull \<or> x = JUndefined then Inr [] else ToString nt x) of
        Inl e \<Rightarrow> Inl e
      | Inr s \<Rightarrow>
          if xs = [] then Inr s
          else (case join_elements nt xs of
                  Inl e \<Rightarrow> Inl e
                | Inr t \<Rightarrow> Inr (s @ js '','' @ t)))"

text \<open>\<^verbatim>\<open>indexOf\<close> of a character and \<^verbatim>\<open>substring\<close> with one argument.\<close>

definition indexOf :: "jstring \<Rightarrow> nat \<Rightarrow> int" where
  "indexOf s c = (if c \<in> set s then int (length (takeWhile (\<lambda>x. x \<noteq> c) s)) else - 1)"

definition substring :: "jstring \<Rightarrow> int \<Rightarrow> jstring" where
  "substring s i = drop (nat i) s"

subsection \<open>The child process and the promise\<close>

text \<open>
  What \<^verbatim>\<open>spawn\<close> and the child process do, seen from the handlers: the executor's
  \<^verbatim>\<open>try\<close> block throws (the message of the error is kept), or the process object
  exists and emits events: chunks of standard output already converted to text, a
  \<^verbatim>\<open>close\<close> with the exit code (\<^verbatim>\<open>null\<close> after a signal), an \<^verbatim>\<open>error\<close> with the
  message of its error. Standard error is ignored by the \<^verbatim>\<open>stdio\<close> option.
\<close>

datatype event = Data jstring | Close "int option" | ErrorEvent jstring

datatype worker = Throws jstring | Spawned "event list"

text \<open>
  The host of a call: the two paths built from the working directory, the behaviour of
  the process spawned with a given executable and argument list, and the two texts the
  engine chooses, a number printed and the message of an exception.
\<close>

record host =
  pythonExe :: jstring
  pythonScriptPath :: jstring
  spawn :: "jstring \<Rightarrow> jstring list \<Rightarrow> worker"
  number_text :: "int \<Rightarrow> int \<Rightarrow> jstring"
  error_message :: "js_exception \<Rightarrow> jstring"

datatype 'a promise = Pending | Resolved 'a | Rejected js_exception

record 'a call =
  stdout :: jstring
  promise :: "'a promise"

text \<open>\<^verbatim>\<open>resolve(v)\<close> settles a pending promise and leaves a settled one as it is.\<close>

definition resolve :: "'a \<Rightarrow> 'a call \<Rightarrow> 'a call" where
  "resolve v s = (case promise s of Pending \<Rightarrow> s\<lparr>promise := Resolved v\<rparr> | _ \<Rightarrow> s)"

text \<open>One event, given to the handler registered for it.\<close>

fun deliver :: "(jstring \<Rightarrow> int option \<Rightarrow> 'a) \<Rightarrow> (jstring \<Rightarrow> 'a) \<Rightarrow> 'a call \<Rightarrow> event \<Rightarrow> 'a call" where
  "deliver on_close on_error s (Data d) = s\<lparr>stdout := stdout s @ d\<rparr>"
| "deliver on_close on_error s (Close code) = resolve (on_close (stdout s) code) s"
| "deliver on_close on_error s (ErrorEvent msg) = resolve (on_error msg) s"

definition settle :: "(jstring \<Rightarrow> int option \<Rightarrow> 'a) \<Rightarrow> (jstring \<Rightarrow> 'a) \<Rightarrow> event list \<Rightarrow> 'a promise" where
  "settle on_close on_error evs =
     promise (foldl (deliver on_close on_error) \<lparr>stdout = [], promise = Pending\<rparr> evs)"

subsection \<open>\<^verbatim>\<open>queryFAISSVectorStore\<close>\<close>

text \<open>The JSON part of the output: from the first \<^verbatim>\<open>{\<close>, or all of it when there is none.\<close>

definition json_text :: "jstring \<Rightarrow> jstring" where
  "json_text out =
     (let jsonStart = indexOf out 123
      in if jsonStart \<ge> 0 then substring out jsonStart else out)"

definition unavailable_advisory :: jsval where
  "unavailable_advisory =
     JArr [JStr (js ''RAG system temporarily unavailable. Using general medical knowledge.''),
           JStr (js ''Please ensure the FAISS index is properly built from your medical documents.'')]"

definition parse_advisory :: jsval where
  "parse_advisory =
     JArr [JStr (js ''Error processing RAG query. Please check the system configuration.'')]"

definition launch_advisory :: jsval where
  "launch_advisory =
     JArr [JStr (js ''RAG system unavailable. Please ensure Python dependencies are installed.''),
           JStr (js ''Run: pip install -r requirements.txt'')]"

definition fallback_advisory :: jsval where
  "fallback_advisory = JArr [JStr (js ''RAG system error. Using fallback response.'')]"

text \<open>
  The \<^verbatim>\<open>try\<close> block of the \<^verbatim>\<open>close\<close> handler: the value it resolves with, or the
  exception it throws. The two log lines are kept for the conversions they make.
\<close>

definition retrieval_of_output :: "(int \<Rightarrow> int \<Rightarrow> jstring) \<Rightarrow> jstring \<Rightarrow> js_exception + jsval" where
  "retrieval_of_output nt out =
     (case JSON_parse (json_text out) of
        Inl e \<Rightarrow> Inl e
      | Inr result \<Rightarrow>
          (case get_prop result (js ''error'') of
             Inl e \<Rightarrow> Inl e
           | Inr err \<Rightarrow>
               if truthy err then
                 (case ToString nt err of
                    Inl e \<Rightarrow> Inl e
                  | Inr logged \<Rightarrow> Inr (JArr [err]))
               else
                 (case get_prop result (js ''chunk_count'') of
                    Inl e \<Rightarrow> Inl e
                  | Inr n \<Rightarrow>
                      (case ToString nt n of
                         Inl e \<Rightarrow> Inl e
                       | Inr logged \<Rightarrow>
                           (case get_prop result (js ''chunks'') of
                              Inl e \<Rightarrow> Inl e
                            | Inr chunks \<Rightarrow> Inr (if truthy chunks then chunks else JArr []))))))"

definition query_on_close :: "host \<Rightarrow> jstring \<Rightarrow> int option \<Rightarrow> jsval" where
  "query_on_close h out code =
     (if code \<noteq> Some 0 then unavailable_advisory
      else (case retrieval_of_output (number_text h) out of
              Inl parseError \<Rightarrow> parse_advisory
            | Inr v \<Rightarrow> v))"

definition query_on_error :: "jstring \<Rightarrow> jsval" where
  "query_on_error msg = launch_advisory"

text \<open>
  The arguments the worker is spawned with. \<^verbatim>\<open>topK\<close> is an integer, as the
  specification types it, and \<^verbatim>\<open>topK.toString()\<close> is the engine's text of it.
\<close>

definition query_args :: "host \<Rightarrow> jstring \<Rightarrow> int \<Rightarrow> jstring list" where
  "query_args h query topK = [pythonScriptPath h, query, js ''--top-k'', number_text h topK 0]"

definition retrieval_outcome :: "host \<Rightarrow> worker \<Rightarrow> jsval promise" where
  "retrieval_outcome h w =
     (case w of
        Throws msg \<Rightarrow> Resolved fallback_advisory
      | Spawned evs \<Rightarrow> settle (query_on_close h) query_on_error evs)"

definition queryFAISSVectorStore :: "host \<Rightarrow> jstring \<Rightarrow> int \<Rightarrow> jsval promise" where
  "queryFAISSVectorStore h query topK =
     retrieval_outcome h (spawn h (pythonExe h) (query_args h query topK))"

subsection \<open>\<^verbatim>\<open>checkRAGSystemStatus\<close>\<close>

record status =
  ready :: jsval
  message :: jstring
  details :: jsval

definition status_of_output :: "(int \<Rightarrow> int \<Rightarrow> jstring) \<Rightarrow> jstring \<Rightarrow> js_exception + status" where
  "status_of_output nt out =
     (case JSON_parse (json_text out) of
        Inl e \<Rightarrow> Inl e
      | Inr st \<Rightarrow>
          (case get_prop st (js ''ready'') of
             Inl e \<Rightarrow> Inl e
           | Inr r \<Rightarrow>
               if truthy r then
                 (case get_prop st (js ''doc_count'') of
                    Inl e \<Rightarrow> Inl e
                  | Inr n \<Rightarrow>
                      (case ToString nt n of
                         Inl e \<Rightarrow> Inl e
                       | Inr count \<Rightarrow>
                           Inr \<lparr>ready = r,
                                message = js ''RAG system ready with '' @ count @ js '' documents'',
                                details = st\<rparr>))
               else
                 Inr \<lparr>ready = r,
                      message = js ''RAG system not ready - please build FAISS index'',
                      details = st\<rparr>))"

definition code_value :: "int option \<Rightarrow> jsval" where
  "code_value code = (case code of None \<Rightarrow> JNull | Some c \<Rightarrow> JNum c 0)"

definition code_text :: "(int \<Rightarrow> int \<Rightarrow> jstring) \<Rightarrow> int option \<Rightarrow> jstring" where
  "code_text nt code = (case code of None \<Rightarrow> js ''null'' | Some c \<Rightarrow> nt c 0)"

definition status_on_close :: "host \<Rightarrow> jstring \<Rightarrow> int option \<Rightarrow> status" where
  "status_on_close h out code =
     (if code \<noteq> Some 0 then
        \<lparr>ready = JBool False,
         message = js ''RAG system check failed (exit code '' @ code_text (number_text h) code @ js '')'',
         details = JObj [(js ''code'', code_value code)]\<rparr>
      else (case status_of_output (number_text h) out of
              Inl parseError \<Rightarrow>
                \<lparr>ready = JBool False,
                 message = js ''Error parsing RAG system status'',
                 details = JObj [(js ''parseError'', JStr (error_message h parseError)),
                                 (js ''stdout'', JStr out)]\<rparr>
            | Inr st \<Rightarrow> st))"

definition status_on_error :: "jstring \<Rightarrow> status" where
  "status_on_error msg =
     \<lparr>ready = JBool False,
      message = js ''Python environment not available'',
      details = JObj [(js ''error'', JStr msg)]\<rparr>"

definition status_args :: "host \<Rightarrow> jstring list" where
  "status_args h = [pythonScriptPath h, js ''--check-status'']"

definition status_outcome :: "host \<Rightarrow> worker \<Rightarrow> status promise" where
  "status_outcome h w =
     (case w of
        Throws msg \<Rightarrow>
          Resolved \<lparr>ready = JBool False,
                    message = js ''Error checking RAG system status'',
                    details = JObj [(js ''error'', JStr msg)]\<rparr>
      | Spawned evs \<Rightarrow> settle (status_on_close h) status_on_error evs)"

definition checkRAGSystemStatus :: "host \<Rightarrow> status promise" where
  "checkRAGSystemStatus h = status_outcome h (spawn h (pythonExe h) (status_args h))"

subsection \<open>The behaviours of the worker\<close>

text \<open>
  The buffer at the first \<^verbatim>\<open>close\<close> or \<^verbatim>\<open>error\<close> event, and that event: what the
  promise is settled from. \<open>None\<close> is a worker that emits neither.
\<close>

fun first_settling :: "event list \<Rightarrow> jstring \<Rightarrow> (jstring \<times> event) option" where
  "first_settling [] buf = None"
| "first_settling (Data d # evs) buf = first_settling evs (buf @ d)"
| "first_settling (ev # evs) buf = Some (buf, ev)"

text \<open>
  The kinds of behaviour the specification names: the executor throws, the process
  cannot be launched, it exits with a code other than 0, it exits with 0 and its output
  does not parse, it exits with 0 and its output parses to a payload. \<open>Hung\<close> is the
  worker that never closes, for which the bridge has no timeout.
\<close>

datatype behaviour = Hung | InternalError | LaunchFailure | ExitFailure | Unparseable | Payload jsval

definition behaviour_of :: "worker \<Rightarrow> behaviour" where
  "behaviour_of w =
     (case w of
        Throws msg \<Rightarrow> InternalError
      | Spawned evs \<Rightarrow>
          (case first_settling evs [] of
             None \<Rightarrow> Hung
           | Some (out, Data d) \<Rightarrow> Hung
           | Some (out, ErrorEvent msg) \<Rightarrow> LaunchFailure
           | Some (out, Close code) \<Rightarrow>
               if code \<noteq> Some 0 then ExitFailure
               else (case JSON_parse (json_text out) of
                       Inl e \<Rightarrow> Unparseable
                     | Inr p \<Rightarrow> Payload p)))"

fun is_text :: "jsval \<Rightarrow> bool" where
  "is_text (JStr s) = True"
| "is_text v = False"

definition is_string_list :: "jsval \<Rightarrow> bool" where
  "is_string_list v = (case v of JArr xs \<Rightarrow> list_all is_text xs | _ \<Rightarrow> False)"

definition optional :: "(jsval \<Rightarrow> bool) \<Rightarrow> jsval \<Rightarrow> bool" where
  "optional P v = (v = JUndefined \<or> v = JNull \<or> P v)"

text \<open>
  A payload in the worker's format: its \<^verbatim>\<open>error\<close>, where present, is text or
  \<^verbatim>\<open>null\<close>, and its \<^verbatim>\<open>chunks\<close>, where present, is a list of strings or \<^verbatim>\<open>null\<close>.
\<close>

definition fields_typed :: "jsval \<Rightarrow> bool" where
  "fields_typed p =
     (case p of
        JObj ms \<Rightarrow>
          optional is_text (field ms (js ''error'')) \<and>
          optional is_string_list (field ms (js ''chunks''))
      | _ \<Rightarrow> True)"

text \<open>
  The behaviours in which the retrieval must give a list of strings: every one in which
  the worker ends, a payload being in the worker's format.
\<close>

definition retrieval_scope :: "behaviour \<Rightarrow> bool" where
  "retrieval_scope b = (case b of Hung \<Rightarrow> False | Payload p \<Rightarrow> fields_typed p | _ \<Rightarrow> True)"

text \<open>The failure paths of the readiness probe.\<close>

definition failure_path :: "behaviour \<Rightarrow> bool" where
  "failure_path b = (case b of Hung \<Rightarrow> False | Payload p \<Rightarrow> False | _ \<Rightarrow> True)"

subsection \<open>A host for closed instances\<close>

text \<open>
  Integers printed in decimal, as \<^verbatim>\<open>Number.prototype.toString\<close> prints the integers
  that a double holds exactly and that are below \<open>10 ^ 21\<close> in magnitude.
\<close>

fun decimal_digits :: "nat \<Rightarrow> jstring" where
  "decimal_digits n = (if n < 10 then [48 + n] else decimal_digits (n div 10) @ [48 + n mod 10])"

declare decimal_digits.simps [simp del]

definition decimal :: "int \<Rightarrow> jstring" where
  "decimal i = (if i < 0 then 45 # decimal_digits (nat (- i)) else decimal_digits (nat i))"

text \<open>
  The host of the instances below, with the worker left open. It prints a number of
  exponent 0 or more, an integer, in decimal; no instance prints another number.
\<close>

definition example_host :: "(jstring \<Rightarrow> jstring list \<Rightarrow> worker) \<Rightarrow> host" where
  "example_host sp =
     \<lparr>pythonExe = js ''/app/.venv/bin/python'',
      pythonScriptPath = js ''/app/lib/rag_service.py'',
      spawn = sp,
      number_text = (\<lambda>m e. decimal (m * 10 ^ nat e)),
      error_message = (\<lambda>e. case e of SyntaxError t \<Rightarrow> js ''Unexpected token'' | TypeError \<Rightarrow> js ''Cannot read properties of null'')\<rparr>"

text \<open>A worker that writes \<open>out\<close> in one chunk and closes with \<open>code\<close>.\<close>

definition prints :: "jstring \<Rightarrow> int option \<Rightarrow> jstring \<Rightarrow> jstring list \<Rightarrow> worker" where
  "prints out code exe args = Spawned [Data out, Close code]"

text \<open>A worker that answers with the one chunk that is its last argument.\<close>

definition echoes_last_argument :: "jstring \<Rightarrow> jstring list \<Rightarrow> worker" where
  \<open>echoes_last_argument exe args =
     Spawned [Data (js ''{"chunks":["'' @ last args @ js ''"]}''), Close (Some 0)]\<close>

text \<open>A launch that fails: the \<^verbatim>\<open>error\<close> event, then \<^verbatim>\<open>close\<close> with the negative code.\<close>

definition fails_to_launch :: "jstring \<Rightarrow> jstring list \<Rightarrow> worker" where
  "fails_to_launch exe args = Spawned [ErrorEvent (js ''spawn python ENOENT''), Close (Some (- 2))]"

definition chunks_output :: jstring where
  \<open>chunks_output = js ''{"chunks":["a","b","a"],"chunk_count":3}''\<close>

definition error_output :: jstring where
  \<open>error_output = js ''{"error":"X"}''\<close>

definition empty_error_output :: jstring where
  \<open>empty_error_output = js ''{"error":""}''\<close>

definition error_and_chunks_output :: jstring where
  \<open>error_and_chunks_output = js ''{"error":"X","chunks":["a","b"],"chunk_count":2}''\<close>

definition odd_count_output :: jstring where
  \<open>odd_count_output = js ''{"chunks":["a","b"],"chunk_count":{"toString":0}}''\<close>



definition error_number_output :: jstring where
  \<open>error_number_output = js ''{"error":5}''\<close>

definition chunks_text_output :: jstring where
  \<open>chunks_text_output = js ''{"chunks":"abc"}''\<close>


definition braces_before_output :: jstring where
  \<open>braces_before_output = js ''load {cpu} '' @ chunks_output\<close>

definition warning_before_output :: jstring where
  \<open>warning_before_output = js ''warning: slow start '' @ chunks_output\<close>

definition ready_output :: jstring where
  \<open>ready_output = js ''{"ready":true,"doc_count":1235,"has_docs":true}''\<close>

lemmas json_eval =
  JSON_parse_def js_def cu_def is_ws_def punct_def emit_def prepend_def is_digit_def
  lex_number_def lex_unsigned_def lex_int_def lex_frac_def lex_exp_def lex_exp_digits_def
  digits_value_def lex_literal_def unescape_def hex4_def hex_value_def

lemmas bridge_eval =
  json_text_def indexOf_def substring_def own_property_def field_def
  retrieval_of_output_def query_on_close_def status_of_output_def status_on_close_def

lemmas run_eval =
  queryFAISSVectorStore_def retrieval_outcome_def checkRAGSystemStatus_def status_outcome_def
  settle_def resolve_def example_host_def prints_def query_args_def status_args_def

section \<open>Settling the promise\<close>

lemma resolve_settled: "promise s \<noteq> Pending \<Longrightarrow> resolve v s = s"
  by (cases "promise s") (simp_all add: resolve_def)

lemma deliver_settled: "promise s \<noteq> Pending \<Longrightarrow> promise (deliver oc oe s ev) = promise s"
  by (cases ev) (simp_all add: resolve_settled)

lemma foldl_deliver_settled:
  "promise s \<noteq> Pending \<Longrightarrow> promise (foldl (deliver oc oe) s evs) = promise s"
  by (induction evs arbitrary: s) (simp_all add: deliver_settled)

text \<open>The promise after all events is decided by the first settling event alone.\<close>

lemma foldl_deliver_first:
  "promise s = Pending \<Longrightarrow>
   promise (foldl (deliver oc oe) s evs) =
     (case first_settling evs (stdout s) of
        None \<Rightarrow> Pending
      | Some (out, Close code) \<Rightarrow> Resolved (oc out code)
      | Some (out, ErrorEvent msg) \<Rightarrow> Resolved (oe msg)
      | Some (out, Data d) \<Rightarrow> Pending)"
proof (induction evs arbitrary: s)
  case Nil
  then show ?case by simp
next
  case (Cons ev evs)
  show ?case
  proof (cases ev)
    case (Data d)
    with Cons show ?thesis by simp
  next
    case (Close code)
    with Cons.prems show ?thesis
      by (simp add: foldl_deliver_settled resolve_def)
  next
    case (ErrorEvent msg)
    with Cons.prems show ?thesis
      by (simp add: foldl_deliver_settled resolve_def)
  qed
qed

lemma settle_first:
  "settle oc oe evs =
     (case first_settling evs [] of
        None \<Rightarrow> Pending
      | Some (out, Close code) \<Rightarrow> Resolved (oc out code)
      | Some (out, ErrorEvent msg) \<Rightarrow> Resolved (oe msg)
      | Some (out, Data d) \<Rightarrow> Pending)"
  unfolding settle_def by (subst foldl_deliver_first) simp_all

lemma first_settling_data:
  "first_settling (map Data ds @ evs) buf = first_settling evs (buf @ concat ds)"
  by (induction ds arbitrary: buf) simp_all

lemma settle_close:
  "settle oc oe (map Data ds @ Close code # rest) = Resolved (oc (concat ds) code)"
  by (simp add: settle_first first_settling_data)

lemma settle_error:
  "settle oc oe (map Data ds @ ErrorEvent msg # rest) = Resolved (oe msg)"
  by (simp add: settle_first first_settling_data)

lemma settle_not_rejected: "settle oc oe evs \<noteq> Rejected e"
  by (simp add: settle_first split: option.splits prod.splits event.splits)

lemma not_isl_Inr: "\<not> isl x \<Longrightarrow> \<exists>t. x = Inr t"
  by (cases x) simp_all

text \<open>Text with no \<^verbatim>\<open>{\<close> before the first \<^verbatim>\<open>{\<close> of the output is dropped.\<close>

lemma json_text_skips:
  assumes "123 \<notin> set pre"
  shows "json_text (pre @ 123 # body) = 123 # body"
proof -
  have "takeWhile (\<lambda>x. x \<noteq> 123) (pre @ 123 # body) = pre"
    using assms by (induction pre) auto
  then show ?thesis
    by (simp add: json_text_def indexOf_def substring_def)
qed

section \<open>The retrieval bridge\<close>

text \<open>
  C2. When the worker exits with a code other than 0 (or is killed by a signal, which
  gives the code \<^verbatim>\<open>null\<close>), whatever it wrote before and whatever the query and
  \<^verbatim>\<open>topK\<close> are, \<^verbatim>\<open>queryFAISSVectorStore\<close> resolves to the fixed list of two advisory
  lines: "temporarily unavailable" and the hint to build the index.
\<close>

theorem nonzero_exit_two_line_advisory:
  assumes "spawn h (pythonExe h) (query_args h query topK) = Spawned (map Data ds @ Close code # rest)"
    and "code \<noteq> Some 0"
  shows "queryFAISSVectorStore h query topK =
           Resolved (JArr [JStr (js ''RAG system temporarily unavailable. Using general medical knowledge.''),
                           JStr (js ''Please ensure the FAISS index is properly built from your medical documents.'')])"
  using assms
  by (simp add: queryFAISSVectorStore_def retrieval_outcome_def settle_close
        query_on_close_def unavailable_advisory_def)

theorem nonzero_exit_two_line_advisory_witness:
  "queryFAISSVectorStore
     (example_host (\<lambda>exe args. Spawned [Data (js ''Traceback''), Close (Some 1)]))
     (js ''fever'') 5 =
   Resolved (JArr [JStr (js ''RAG system temporarily unavailable. Using general medical knowledge.''),
                   JStr (js ''Please ensure the FAISS index is properly built from your medical documents.'')])"
  using nonzero_exit_two_line_advisory
    [of "example_host (\<lambda>exe args. Spawned [Data (js ''Traceback''), Close (Some 1)])"
        "js ''fever''" 5 "[js ''Traceback'']" "Some 1" "[]"]
  by (simp add: example_host_def)

lemma is_string_list_advisories:
  "is_string_list unavailable_advisory" "is_string_list parse_advisory"
  "is_string_list launch_advisory" "is_string_list fallback_advisory"
  by (simp_all add: is_string_list_def unavailable_advisory_def parse_advisory_def
        launch_advisory_def fallback_advisory_def)

lemma typed_payload_string_list:
  assumes "fields_typed p" and "JSON_parse (json_text out) = Inr p"
  shows "is_string_list (query_on_close h out (Some 0))"
proof (cases "retrieval_of_output (number_text h) out")
  case (Inl e)
  then show ?thesis by (simp add: query_on_close_def is_string_list_advisories)
next
  case (Inr v)
  show ?thesis
  proof (cases p)
    case (JObj ms)
    with assms Inr show ?thesis
      by (auto simp: query_on_close_def retrieval_of_output_def fields_typed_def optional_def
            is_string_list_def
          split: sum.splits option.splits if_splits jsval.splits elim: is_text.elims)
  qed (use assms Inr in \<open>auto simp: query_on_close_def retrieval_of_output_def is_string_list_def\<close>)
qed

lemma unparseable_string_list:
  assumes "JSON_parse (json_text out) = Inl e"
  shows "is_string_list (query_on_close h out (Some 0))"
  using assms by (simp add: query_on_close_def retrieval_of_output_def is_string_list_advisories)

lemma nonzero_string_list:
  "code \<noteq> Some 0 \<Longrightarrow> is_string_list (query_on_close h out code)"
  by (simp add: query_on_close_def is_string_list_advisories)

lemma retrieval_outcome_scope:
  assumes "retrieval_scope (behaviour_of w)"
  shows "\<exists>v. retrieval_outcome h w = Resolved v \<and> is_string_list v"
proof (cases w)
  case (Throws msg)
  then show ?thesis by (simp add: retrieval_outcome_def is_string_list_advisories)
next
  case (Spawned evs)
  show ?thesis
  proof (cases "first_settling evs []")
    case None
    with assms Spawned show ?thesis by (simp add: behaviour_of_def retrieval_scope_def)
  next
    case (Some a)
    obtain out ev where a: "a = (out, ev)" by (cases a)
    show ?thesis
    proof (cases ev)
      case (Data d)
      with assms Spawned Some a show ?thesis by (simp add: behaviour_of_def retrieval_scope_def)
    next
      case (ErrorEvent msg)
      with Spawned Some a show ?thesis
        by (simp add: retrieval_outcome_def settle_first query_on_error_def is_string_list_advisories)
    next
      case (Close code)
      have out: "retrieval_outcome h w = Resolved (query_on_close h out code)"
        using Spawned Some a Close by (simp add: retrieval_outcome_def settle_first)
      show ?thesis
      proof (cases "code = Some 0")
        case False
        with out show ?thesis by (simp add: nonzero_string_list)
      next
        case True
        show ?thesis
        proof (cases "JSON_parse (json_text out)")
          case (Inl e)
          with out True show ?thesis by (simp add: unparseable_string_list)
        next
          case (Inr p)
          with assms Spawned Some a Close True have "fields_typed p"
            by (simp add: behaviour_of_def retrieval_scope_def)
          with Inr out True show ?thesis by (simp add: typed_payload_string_list)
        qed
      qed
    qed
  qed
qed

lemma retrieval_outcome_not_rejected: "retrieval_outcome h w \<noteq> Rejected e"
  by (cases w) (simp_all add: retrieval_outcome_def settle_not_rejected)

lemma retrieval_outcome_resolves:
  assumes "behaviour_of w \<noteq> Hung"
  shows "\<exists>v. retrieval_outcome h w = Resolved v"
proof (cases w)
  case (Throws msg)
  then show ?thesis by (simp add: retrieval_outcome_def)
next
  case (Spawned evs)
  with assms show ?thesis
    by (auto simp: retrieval_outcome_def settle_first behaviour_of_def
        split: option.splits prod.splits event.splits)
qed

lemma retrieval_scope_typed:
  assumes "b \<noteq> Hung" and "\<forall>p. b = Payload p \<longrightarrow> fields_typed p"
  shows "retrieval_scope b"
  using assms by (cases b) (simp_all add: retrieval_scope_def)

text \<open>
  C1, as stated, fails for a payload whose fields are not of the worker's format: the
  handler passes \<^verbatim>\<open>result.error\<close> and \<^verbatim>\<open>result.chunks\<close> on as they are. An
  \<^verbatim>\<open>error\<close> that is the number 5 resolves to the list of that number, and a
  \<^verbatim>\<open>chunks\<close> that is a text resolves to that text, which is no list.
\<close>

theorem untyped_payload_counterexample:
  "queryFAISSVectorStore (example_host (prints error_number_output (Some 0))) (js ''fever'') 5
     = Resolved (JArr [JNum 5 0]) \<and>
   \<not> is_string_list (JArr [JNum 5 0]) \<and>
   queryFAISSVectorStore (example_host (prints chunks_text_output (Some 0))) (js ''fever'') 5
     = Resolved (JStr (js ''abc'')) \<and>
   \<not> is_string_list (JStr (js ''abc''))"
  by (simp add: run_eval error_number_output_def chunks_text_output_def is_string_list_def
        rounds_to_zero_def json_eval bridge_eval)

text \<open>
  C1, amended. \<^verbatim>\<open>queryFAISSVectorStore\<close> never rejects. Whenever the worker ends
  (the executor throws, the launch fails, or the process closes with any code and any
  output) it resolves. The value it resolves to is a list of strings whenever the
  payload, if the output parses to one, has an \<^verbatim>\<open>error\<close> that is absent,
  \<^verbatim>\<open>null\<close> or text and a \<^verbatim>\<open>chunks\<close> that is absent, \<^verbatim>\<open>null\<close> or a list of
  strings.
\<close>

theorem retrieve_resolves:
  "(\<forall>e. queryFAISSVectorStore h query topK \<noteq> Rejected e) \<and>
   (behaviour_of (spawn h (pythonExe h) (query_args h query topK)) \<noteq> Hung \<longrightarrow>
      (\<exists>v. queryFAISSVectorStore h query topK = Resolved v \<and>
         ((\<forall>p. behaviour_of (spawn h (pythonExe h) (query_args h query topK)) = Payload p
                \<longrightarrow> fields_typed p)
            \<longrightarrow> is_string_list v)))"
proof -
  let ?w = "spawn h (pythonExe h) (query_args h query topK)"
  have never: "\<forall>e. retrieval_outcome h ?w \<noteq> Rejected e"
    by (simp add: retrieval_outcome_not_rejected)
  have ends: "\<exists>v. retrieval_outcome h ?w = Resolved v \<and>
           ((\<forall>p. behaviour_of ?w = Payload p \<longrightarrow> fields_typed p) \<longrightarrow> is_string_list v)"
    if alive: "behaviour_of ?w \<noteq> Hung"
  proof -
    from retrieval_outcome_resolves [OF alive] obtain v where
      v: "retrieval_outcome h ?w = Resolved v" by blast
    have "is_string_list v" if typed: "\<forall>p. behaviour_of ?w = Payload p \<longrightarrow> fields_typed p"
    proof -
      from retrieval_outcome_scope [OF retrieval_scope_typed [OF alive typed]]
      obtain u where "retrieval_outcome h ?w = Resolved u" and "is_string_list u" by blast
      with v show ?thesis by simp
    qed
    with v show ?thesis by blast
  qed
  from never ends show ?thesis
    unfolding queryFAISSVectorStore_def by blast
qed

text \<open>
  The run that prints three chunks ends with a typed payload, and the result is a list
  of strings.
\<close>

theorem retrieve_resolves_witness:
  "behaviour_of (spawn (example_host (prints chunks_output (Some 0)))
       (pythonExe (example_host (prints chunks_output (Some 0))))
       (query_args (example_host (prints chunks_output (Some 0))) (js ''fever'') 5))
     = Payload (JObj [(js ''chunks'', JArr [JStr (js ''a''), JStr (js ''b''), JStr (js ''a'')]),
                      (js ''chunk_count'', JNum 3 0)]) \<and>
   fields_typed (JObj [(js ''chunks'', JArr [JStr (js ''a''), JStr (js ''b''), JStr (js ''a'')]),
                       (js ''chunk_count'', JNum 3 0)]) \<and>
   (\<exists>v. queryFAISSVectorStore (example_host (prints chunks_output (Some 0))) (js ''fever'') 5 = Resolved v
        \<and> is_string_list v)"
proof -
  let ?h = "example_host (prints chunks_output (Some 0))"
  let ?w = "spawn ?h (pythonExe ?h) (query_args ?h (js ''fever'') 5)"
  have b: "behaviour_of ?w
      = Payload (JObj [(js ''chunks'', JArr [JStr (js ''a''), JStr (js ''b''), JStr (js ''a'')]),
                       (js ''chunk_count'', JNum 3 0)])"
    by (simp add: example_host_def behaviour_of_def prints_def chunks_output_def
          json_eval bridge_eval)
  have typed: "fields_typed (JObj [(js ''chunks'', JArr [JStr (js ''a''), JStr (js ''b''), JStr (js ''a'')]),
                       (js ''chunk_count'', JNum 3 0)])"
    by (simp add: fields_typed_def optional_def is_string_list_def field_def own_property_def
          js_def cu_def)
  have alive: "behaviour_of ?w \<noteq> Hung" and all: "\<forall>p. behaviour_of ?w = Payload p \<longrightarrow> fields_typed p"
    using b typed by simp_all
  from retrieve_resolves [of ?h "js ''fever''" 5] alive all b typed show ?thesis by blast
qed


text \<open>
  C3, as stated, fails for an error field that holds the empty text: the guard
  \<^verbatim>\<open>if (result.error)\<close> takes it for no error, and the result is the list of chunks,
  here empty.
\<close>

theorem empty_error_text_counterexample:
  "JSON_parse empty_error_output = Inr (JObj [(js ''error'', JStr [])]) \<and>
   queryFAISSVectorStore (example_host (prints empty_error_output (Some 0))) (js ''fever'') 5
     = Resolved (JArr []) \<and>
   JArr [] \<noteq> JArr [JStr []]"
  by (simp add: queryFAISSVectorStore_def retrieval_outcome_def settle_def resolve_def
        example_host_def prints_def empty_error_output_def json_eval bridge_eval)

text \<open>
  C3, amended. When the worker exits with code 0 and its output parses to an object
  whose \<^verbatim>\<open>error\<close> field is a non-empty text, \<^verbatim>\<open>queryFAISSVectorStore\<close> resolves to
  the list of that text alone, unchanged.
\<close>

theorem error_text_surfaced:
  assumes "spawn h (pythonExe h) (query_args h query topK) = Spawned (map Data ds @ Close (Some 0) # rest)"
    and "JSON_parse (json_text (concat ds)) = Inr (JObj ms)"
    and "field ms (js ''error'') = JStr x"
    and "x \<noteq> []"
  shows "queryFAISSVectorStore h query topK = Resolved (JArr [JStr x])"
  using assms
  by (simp add: queryFAISSVectorStore_def retrieval_outcome_def settle_close
        query_on_close_def retrieval_of_output_def)

theorem error_text_surfaced_witness:
  "queryFAISSVectorStore (example_host (prints error_output (Some 0))) (js ''fever'') 5
     = Resolved (JArr [JStr (js ''X'')])"
proof -
  have parse: "JSON_parse (json_text (concat [error_output])) = Inr (JObj [(js ''error'', JStr (js ''X''))])"
    by (simp add: error_output_def json_eval bridge_eval)
  have err: "field [(js ''error'', JStr (js ''X''))] (js ''error'') = JStr (js ''X'')"
    by (simp add: field_def own_property_def)
  have spawned: "spawn (example_host (prints error_output (Some 0)))
      (pythonExe (example_host (prints error_output (Some 0))))
      (query_args (example_host (prints error_output (Some 0))) (js ''fever'') 5)
      = Spawned (map Data [error_output] @ Close (Some 0) # [])"
    by (simp add: example_host_def prints_def)
  have nonempty: "js ''X'' \<noteq> []" by (simp add: js_def)
  from error_text_surfaced [OF spawned parse err nonempty] show ?thesis .
qed

text \<open>
  C4, as stated, fails for a payload that carries a chunks list and an error text: the
  error is tested first and the chunks are not returned. It also fails when the
  \<^verbatim>\<open>chunk_count\<close> that the handler logs cannot be converted to text: the
  \<^verbatim>\<open>TypeError\<close> of the template literal is caught as a parse error.
\<close>

theorem chunks_not_returned_counterexample:
  "queryFAISSVectorStore (example_host (prints error_and_chunks_output (Some 0))) (js ''fever'') 5
     = Resolved (JArr [JStr (js ''X'')]) \<and>
   queryFAISSVectorStore (example_host (prints odd_count_output (Some 0))) (js ''fever'') 5
     = Resolved parse_advisory"
  by (simp add: run_eval error_and_chunks_output_def odd_count_output_def json_eval bridge_eval)

text \<open>
  C4, amended. When the worker exits with code 0 and its output parses to an object
  whose \<^verbatim>\<open>chunks\<close> field is a list, whose \<^verbatim>\<open>error\<close> field is absent or falsy and
  whose \<^verbatim>\<open>chunk_count\<close> converts to text, \<^verbatim>\<open>queryFAISSVectorStore\<close> resolves to
  exactly that list: same elements, same order, duplicates kept.
\<close>

theorem chunks_returned_in_order:
  assumes "spawn h (pythonExe h) (query_args h query topK) = Spawned (map Data ds @ Close (Some 0) # rest)"
    and "JSON_parse (json_text (concat ds)) = Inr (JObj ms)"
    and "field ms (js ''chunks'') = JArr cs"
    and "\<not> truthy (field ms (js ''error''))"
    and "\<not> isl (ToString (number_text h) (field ms (js ''chunk_count'')))"
  shows "queryFAISSVectorStore h query topK = Resolved (JArr cs)"
  using assms
  by (auto simp: queryFAISSVectorStore_def retrieval_outcome_def settle_close
        query_on_close_def retrieval_of_output_def dest!: not_isl_Inr)

text \<open>
  The three chunks \<^verbatim>\<open>a\<close>, \<^verbatim>\<open>b\<close>, \<^verbatim>\<open>a\<close> come back as written.
\<close>

theorem chunks_returned_in_order_witness:
  "queryFAISSVectorStore (example_host (prints chunks_output (Some 0))) (js ''fever'') 5
     = Resolved (JArr [JStr (js ''a''), JStr (js ''b''), JStr (js ''a'')])"
proof -
  let ?h = "example_host (prints chunks_output (Some 0))"
  let ?ms = "[(js ''chunks'', JArr [JStr (js ''a''), JStr (js ''b''), JStr (js ''a'')]),
              (js ''chunk_count'', JNum 3 0)]"
  have spawned: "spawn ?h (pythonExe ?h) (query_args ?h (js ''fever'') 5)
      = Spawned (map Data [chunks_output] @ Close (Some 0) # [])"
    by (simp add: example_host_def prints_def)
  have parse: "JSON_parse (json_text (concat [chunks_output])) = Inr (JObj ?ms)"
    by (simp add: chunks_output_def json_eval bridge_eval)
  have chunks: "field ?ms (js ''chunks'') = JArr [JStr (js ''a''), JStr (js ''b''), JStr (js ''a'')]"
    by (simp add: field_def own_property_def js_def cu_def)
  have no_error: "\<not> truthy (field ?ms (js ''error''))"
    by (simp add: field_def own_property_def js_def cu_def)
  have count: "\<not> isl (ToString (number_text ?h) (field ?ms (js ''chunk_count'')))"
    by (simp add: field_def own_property_def js_def cu_def)
  from chunks_returned_in_order [OF spawned parse chunks no_error count] show ?thesis .
qed

text \<open>
  C5, as stated, fails when the text before the payload contains a \<^verbatim>\<open>{\<close>: the
  payload alone parses, the substring from the first \<^verbatim>\<open>{\<close> does not, and the
  retrieval resolves to the parse advisory.
\<close>

theorem leading_braces_counterexample:
  "JSON_parse chunks_output
     = Inr (JObj [(js ''chunks'', JArr [JStr (js ''a''), JStr (js ''b''), JStr (js ''a'')]),
                  (js ''chunk_count'', JNum 3 0)]) \<and>
   isl (JSON_parse (json_text braces_before_output)) \<and>
   queryFAISSVectorStore (example_host (prints braces_before_output (Some 0))) (js ''fever'') 5
     = Resolved parse_advisory"
  by (simp add: run_eval braces_before_output_def chunks_output_def json_eval bridge_eval)

text \<open>
  C5, amended. When the output is any text without \<^verbatim>\<open>{\<close> followed by a payload that
  starts with \<^verbatim>\<open>{\<close> and parses, the bridge parses exactly the payload: the text
  before it is dropped, the parse gives the payload's value, and both handlers compute
  what they compute on the payload alone.
\<close>

theorem leading_text_discarded:
  assumes "123 \<notin> set pre" and "JSON_parse (123 # body) = Inr p"
  shows "json_text (pre @ 123 # body) = 123 # body
       \<and> JSON_parse (json_text (pre @ 123 # body)) = Inr p
       \<and> retrieval_of_output nt (pre @ 123 # body) = retrieval_of_output nt (123 # body)
       \<and> status_of_output nt (pre @ 123 # body) = status_of_output nt (123 # body)"
  using assms json_text_skips [of pre body] json_text_skips [of "[]" body]
  by (simp add: retrieval_of_output_def status_of_output_def)

theorem leading_text_discarded_witness:
  "json_text warning_before_output = chunks_output \<and>
   JSON_parse (json_text warning_before_output)
     = Inr (JObj [(js ''chunks'', JArr [JStr (js ''a''), JStr (js ''b''), JStr (js ''a'')]),
                  (js ''chunk_count'', JNum 3 0)])"
proof -
  have split: "warning_before_output = js ''warning: slow start '' @ 123 # tl chunks_output"
    and whole: "123 # tl chunks_output = chunks_output"
    by (simp_all add: warning_before_output_def chunks_output_def js_def cu_def)
  have clean: "123 \<notin> set (js ''warning: slow start '')"
    by (simp add: js_def cu_def)
  have parse: "JSON_parse (123 # tl chunks_output)
     = Inr (JObj [(js ''chunks'', JArr [JStr (js ''a''), JStr (js ''b''), JStr (js ''a'')]),
                  (js ''chunk_count'', JNum 3 0)])"
    unfolding whole by (simp add: chunks_output_def json_eval)
  from leading_text_discarded [OF clean parse] parse show ?thesis
    by (simp add: split whole)
qed




section \<open>The readiness probe\<close>

lemma status_outcome_failure:
  assumes "failure_path (behaviour_of w)"
  shows "\<exists>st. status_outcome h w = Resolved st \<and> ready st = JBool False \<and>
           (\<exists>ms. details st = JObj ms \<and> ms \<noteq> []) \<and>
           (behaviour_of w = InternalError \<longrightarrow> message st = js ''Error checking RAG system status'') \<and>
           (behaviour_of w = LaunchFailure \<longrightarrow> message st = js ''Python environment not available'') \<and>
           (behaviour_of w = ExitFailure \<longrightarrow>
              (\<exists>code. code \<noteq> Some 0 \<and>
                 message st = js ''RAG system check failed (exit code '' @ code_text (number_text h) code @ js '')'')) \<and>
           (behaviour_of w = Unparseable \<longrightarrow> message st = js ''Error parsing RAG system status'')"
proof (cases w)
  case (Throws msg)
  then show ?thesis by (simp add: status_outcome_def behaviour_of_def)
next
  case (Spawned evs)
  show ?thesis
  proof (cases "first_settling evs []")
    case None
    with assms Spawned show ?thesis by (simp add: behaviour_of_def failure_path_def)
  next
    case (Some a)
    obtain out ev where a: "a = (out, ev)" by (cases a)
    show ?thesis
    proof (cases ev)
      case (Data d)
      with assms Spawned Some a show ?thesis by (simp add: behaviour_of_def failure_path_def)
    next
      case (ErrorEvent msg)
      with Spawned Some a show ?thesis
        by (simp add: status_outcome_def settle_first status_on_error_def behaviour_of_def)
    next
      case (Close code)
      have out: "status_outcome h w = Resolved (status_on_close h out code)"
        using Spawned Some a Close by (simp add: status_outcome_def settle_first)
      show ?thesis
      proof (cases "code = Some 0")
        case False
        then have b: "behaviour_of w = ExitFailure"
          using Spawned Some a Close by (simp add: behaviour_of_def)
        from False show ?thesis
          unfolding out b by (auto simp: status_on_close_def)
      next
        case True
        from assms Spawned Some a Close True obtain e where
          e: "JSON_parse (json_text out) = Inl e"
          by (cases "JSON_parse (json_text out)") (simp_all add: behaviour_of_def failure_path_def)
        then have b: "behaviour_of w = Unparseable"
          using Spawned Some a Close True by (simp add: behaviour_of_def)
        from e True show ?thesis
          unfolding out b by (simp add: status_on_close_def status_of_output_def)
      qed
    qed
  qed
qed

lemma status_outcome_not_rejected: "status_outcome h w \<noteq> Rejected e"
  by (cases w) (simp_all add: status_outcome_def settle_not_rejected)

text \<open>
  C6. \<^verbatim>\<open>checkRAGSystemStatus\<close> never rejects, and on each failure path (the executor
  throws, the launch fails, the exit code is not 0, the output does not parse) it
  resolves to a status with \<^verbatim>\<open>ready\<close> false, the diagnostic message of that path and
  an object of details.
\<close>

theorem probe_failures_not_ready:
  "(\<forall>e. checkRAGSystemStatus h \<noteq> Rejected e) \<and>
   (failure_path (behaviour_of (spawn h (pythonExe h) (status_args h))) \<longrightarrow>
      (\<exists>st. checkRAGSystemStatus h = Resolved st \<and> ready st = JBool False \<and>
         (\<exists>ms. details st = JObj ms \<and> ms \<noteq> []) \<and>
         (behaviour_of (spawn h (pythonExe h) (status_args h)) = InternalError \<longrightarrow>
            message st = js ''Error checking RAG system status'') \<and>
         (behaviour_of (spawn h (pythonExe h) (status_args h)) = LaunchFailure \<longrightarrow>
            message st = js ''Python environment not available'') \<and>
         (behaviour_of (spawn h (pythonExe h) (status_args h)) = ExitFailure \<longrightarrow>
            (\<exists>code. code \<noteq> Some 0 \<and>
               message st = js ''RAG system check failed (exit code '' @ code_text (number_text h) code @ js '')'')) \<and>
         (behaviour_of (spawn h (pythonExe h) (status_args h)) = Unparseable \<longrightarrow>
            message st = js ''Error parsing RAG system status'')))"
  unfolding checkRAGSystemStatus_def
  using status_outcome_not_rejected [of h] status_outcome_failure [of _ h] by blast

theorem probe_failures_not_ready_witness:
  "failure_path (behaviour_of (prints (js ''not json'') (Some 0) (pythonExe (example_host (prints (js ''not json'') (Some 0))))
       (status_args (example_host (prints (js ''not json'') (Some 0)))))) \<and>
   (\<exists>st. checkRAGSystemStatus (example_host (prints (js ''not json'') (Some 0))) = Resolved st \<and>
      ready st = JBool False \<and> message st = js ''Error parsing RAG system status'')"
proof -
  let ?h = "example_host (prints (js ''not json'') (Some 0))"
  have b: "behaviour_of (spawn ?h (pythonExe ?h) (status_args ?h)) = Unparseable"
    by (simp add: example_host_def behaviour_of_def prints_def json_eval bridge_eval)
  have sp: "spawn ?h (pythonExe ?h) (status_args ?h)
      = prints (js ''not json'') (Some 0) (pythonExe ?h) (status_args ?h)"
    by (simp add: example_host_def)
  from probe_failures_not_ready [of ?h] b show ?thesis
    unfolding sp [symmetric] by (auto simp: failure_path_def)
qed

text \<open>
  C7. When the worker fails to launch, so that the \<^verbatim>\<open>error\<close> event comes before any
  \<^verbatim>\<open>close\<close>, \<^verbatim>\<open>checkRAGSystemStatus\<close> resolves to \<^verbatim>\<open>ready\<close> false, the message
  "Python environment not available" and details that hold the message of the launch
  error.
\<close>

theorem launch_failure_status:
  assumes "spawn h (pythonExe h) (status_args h) = Spawned (map Data ds @ ErrorEvent msg # rest)"
  shows "checkRAGSystemStatus h =
           Resolved \<lparr>ready = JBool False,
                     message = js ''Python environment not available'',
                     details = JObj [(js ''error'', JStr msg)]\<rparr>"
  using assms
  by (simp add: checkRAGSystemStatus_def status_outcome_def settle_error status_on_error_def)

theorem launch_failure_status_witness:
  "checkRAGSystemStatus (example_host fails_to_launch) =
     Resolved \<lparr>ready = JBool False,
               message = js ''Python environment not available'',
               details = JObj [(js ''error'', JStr (js ''spawn python ENOENT''))]\<rparr>"
  using launch_failure_status
    [of "example_host fails_to_launch" "[]" "js ''spawn python ENOENT''" "[Close (Some (- 2))]"]
  by (simp add: example_host_def fails_to_launch_def)

text \<open>
  C8. When the worker exits with code 0 and its output parses to an object with a
  boolean \<^verbatim>\<open>ready\<close> and a number \<^verbatim>\<open>doc_count\<close>, \<^verbatim>\<open>checkRAGSystemStatus\<close> resolves
  to that flag, to "RAG system ready with N documents" (N the count as the engine prints
  it) when the flag is true and "RAG system not ready - please build FAISS index" when
  it is false, and to the parsed object itself as details.
\<close>

theorem ready_payload_status:
  assumes "spawn h (pythonExe h) (status_args h) = Spawned (map Data ds @ Close (Some 0) # rest)"
    and "JSON_parse (json_text (concat ds)) = Inr (JObj ms)"
    and "field ms (js ''ready'') = JBool b"
    and "field ms (js ''doc_count'') = JNum m e"
  shows "checkRAGSystemStatus h =
           Resolved \<lparr>ready = JBool b,
                     message = (if b then js ''RAG system ready with '' @ number_text h m e @ js '' documents''
                                else js ''RAG system not ready - please build FAISS index''),
                     details = JObj ms\<rparr>"
  using assms
  by (simp add: checkRAGSystemStatus_def status_outcome_def settle_close
        status_on_close_def status_of_output_def)

theorem ready_payload_status_witness:
  "checkRAGSystemStatus (example_host (prints ready_output (Some 0))) =
     Resolved \<lparr>ready = JBool True,
               message = js ''RAG system ready with 1235 documents'',
               details = JObj [(js ''ready'', JBool True), (js ''doc_count'', JNum 1235 0),
                               (js ''has_docs'', JBool True)]\<rparr>"
proof -
  let ?h = "example_host (prints ready_output (Some 0))"
  let ?ms = "[(js ''ready'', JBool True), (js ''doc_count'', JNum 1235 0), (js ''has_docs'', JBool True)]"
  have spawned: "spawn ?h (pythonExe ?h) (status_args ?h)
      = Spawned (map Data [ready_output] @ Close (Some 0) # [])"
    by (simp add: example_host_def prints_def)
  have parse: "JSON_parse (json_text (concat [ready_output])) = Inr (JObj ?ms)"
    by (simp add: ready_output_def json_eval bridge_eval)
  have r: "field ?ms (js ''ready'') = JBool True"
    by (simp add: field_def own_property_def js_def cu_def)
  have n: "field ?ms (js ''doc_count'') = JNum 1235 0"
    by (simp add: field_def own_property_def js_def cu_def)
  have shown: "js ''RAG system ready with '' @ number_text ?h 1235 0 @ js '' documents''
      = js ''RAG system ready with 1235 documents''"
    by (simp add: example_host_def decimal_def decimal_digits.simps js_def cu_def)
  from ready_payload_status [OF spawned parse r n] shown show ?thesis by simp
qed

section \<open>The \<^verbatim>\<open>--top-k\<close> argument\<close>

text \<open>
  C9, as stated, fails: \<^verbatim>\<open>topK = 0\<close> reaches the worker as the argument after
  \<^verbatim>\<open>--top-k\<close>. The worker here answers with its last argument, and the answer is
  \<^verbatim>\<open>0\<close>.
\<close>

theorem nonpositive_topK_counterexample:
  "query_args (example_host echoes_last_argument) (js ''fever'') 0
     = [js ''/app/lib/rag_service.py'', js ''fever'', js ''--top-k'', js ''0''] \<and>
   queryFAISSVectorStore (example_host echoes_last_argument) (js ''fever'') 0
     = Resolved (JArr [JStr (js ''0'')])"
  by (simp add: run_eval echoes_last_argument_def decimal_def decimal_digits.simps
        json_eval bridge_eval)

text \<open>
  C9, amended. \<^verbatim>\<open>queryFAISSVectorStore\<close> does not check \<^verbatim>\<open>topK\<close>: for 0 and for
  every negative value the worker is spawned with the script, the query,
  \<^verbatim>\<open>--top-k\<close> and the text of \<^verbatim>\<open>topK\<close>, and the result is what that run gives.
\<close>

theorem topK_passed_unchecked:
  assumes "topK \<le> 0"
  shows "queryFAISSVectorStore h query topK =
           retrieval_outcome h
             (spawn h (pythonExe h) [pythonScriptPath h, query, js ''--top-k'', number_text h topK 0])"
  by (simp add: queryFAISSVectorStore_def query_args_def)

theorem topK_passed_unchecked_witness:
  "(- 3 :: int) \<le> 0 \<and>
   queryFAISSVectorStore (example_host echoes_last_argument) (js ''fever'') (- 3)
     = Resolved (JArr [JStr (js ''-3'')])"
proof -
  have neg: "(- 3 :: int) \<le> 0" by simp
  have "retrieval_outcome (example_host echoes_last_argument)
          (spawn (example_host echoes_last_argument) (pythonExe (example_host echoes_last_argument))
             [pythonScriptPath (example_host echoes_last_argument), js ''fever'', js ''--top-k'',
              number_text (example_host echoes_last_argument) (- 3) 0])
        = Resolved (JArr [JStr (js ''-3'')])"
    by (simp add: run_eval echoes_last_argument_def decimal_def decimal_digits.simps
          json_eval bridge_eval)
  with topK_passed_unchecked [OF neg, of "example_host echoes_last_argument" "js ''fever''"] neg
  show ?thesis by simp
qed

end
